theory Spec2Isabelle
  imports Main
begin

section \<open>Syntax nodes\<close>

text \<open>
  \<^verbatim>\<open>render.ts\<close> builds TypeScript syntax trees with the factory functions of the
  compiler API (\<^verbatim>\<open>ts.createCall\<close>, \<^verbatim>\<open>ts.createPropertyAccess\<close>, ...). A node is a
  value of the datatype \<open>node\<close>: one constructor per node kind, its arguments in the order
  of the factory function's parameters, \<open>None\<close> where the code passes \<^verbatim>\<open>undefined\<close>.
  \<^verbatim>\<open>ts.createToken\<close>, \<^verbatim>\<open>ts.createModifier\<close> and \<^verbatim>\<open>ts.createKeywordTypeNode\<close> all build the
  bare node of the given syntax kind, here \<open>Token\<close>.

  The factory does not check the static types of its arguments: the \<open>name\<close> slot of a
  property access holds whatever node it is given, which is why that slot has the type
  \<open>node\<close> and not \<open>string\<close>. \<open>OtherNode\<close> stands for the node kinds this file never
  builds itself (statements of the entry file, argument expressions of upstream calls).
  It carries the name of its kind, its children, and the two facts about it that the
  factory asks for when it decides on parentheses (see below): whether the node may stand
  to the left of a dot as it is, and whether its precedence is above that of the comma
  operator. \<open>CallExpression\<close> and \<open>PropertyAccessExpression\<close> are the plain nodes that
  \<^verbatim>\<open>ts.createCall\<close> and \<^verbatim>\<open>ts.createPropertyAccess\<close> build; a call or property access
  that belongs to an optional chain (\<^verbatim>\<open>a?.b()\<close>) is a node of another kind in this sense.
\<close>

datatype SyntaxKind =
  ExportKeyword | DefaultKeyword | AsyncKeyword | VoidKeyword | StringKeyword
  | EqualsGreaterThanToken | DotDotDotToken

datatype NodeFlags = NoFlags | Let | Const

datatype node =
  Identifier string
  | StringLiteral string
  | NumericLiteral string
  | Token SyntaxKind
  | ArrayLiteralExpression "node list" bool
  | CallExpression node "node list option" "node list"
  | PropertyAccessExpression node node
  | ParenthesizedExpression node
  | ExpressionStatement node
  | ReturnStatement node
  | Block "node list" bool
  | ImportDeclaration "node list option" "node list option" node node
  | ImportClause "node option" node
  | NamespaceImport node
  | NamedImports "node list"
  | ImportSpecifier "node option" node
  | TypeReferenceNode node "node list"
  | ArrayTypeNode node
  | Parameter "node list option" "node list option" "node option" node
      "node option" "node option" "node option"
  | FunctionDeclaration "node list option" "node list" "node option" node
      "node list option" "node list" node node
  | ArrowFunction "node list option" "node list option" "node list" "node option" node node
  | BindingElement "node option" "node option" node "node option"
  | ObjectBindingPattern "node list"
  | VariableDeclaration node "node option" node
  | VariableDeclarationList "node list" NodeFlags
  | VariableStatement "node list option" node
  | OtherNode string bool bool "node list"

definition createToken :: "SyntaxKind \<Rightarrow> node" where
  "createToken kind = Token kind"

definition createModifier :: "SyntaxKind \<Rightarrow> node" where
  "createModifier kind = createToken kind"

definition createKeywordTypeNode :: "SyntaxKind \<Rightarrow> node" where
  "createKeywordTypeNode kind = Token kind"

text \<open>
  The fields of a call expression that \<^verbatim>\<open>replaceCallableProperty\<close> reads. Its parameter
  has the static type \<^verbatim>\<open>ts.CallExpression\<close>; on the other node kinds the model leaves the
  fields unspecified, and no theorem below reads them there.
\<close>

fun expression :: "node \<Rightarrow> node" where
  "expression (CallExpression e ta as) = e"

fun typeArguments :: "node \<Rightarrow> node list option" where
  "typeArguments (CallExpression e ta as) = ta"

fun arguments :: "node \<Rightarrow> node list" where
  "arguments (CallExpression e ta as) = as"

fun isCallExpression :: "node \<Rightarrow> bool" where
  "isCallExpression (CallExpression e ta as) = True"
| "isCallExpression n = False"

fun isIdentifier :: "node \<Rightarrow> bool" where
  "isIdentifier (Identifier s) = True"
| "isIdentifier n = False"


section \<open>Parentheses added by the factory\<close>

text \<open>
  \<^verbatim>\<open>ts.createPropertyAccess(expression, name)\<close> stores
  \<^verbatim>\<open>parenthesizeForAccess(expression)\<close> as the receiver, and
  \<^verbatim>\<open>ts.createCall(expression, typeArguments, argumentsArray)\<close> stores
  \<^verbatim>\<open>parenthesizeForAccess(expression)\<close> as the callee and
  \<^verbatim>\<open>parenthesizeListElements(argumentsArray)\<close> as the arguments.

  \<^verbatim>\<open>parenthesizeForAccess\<close> returns its argument when it is a left-hand-side expression
  (and not a \<^verbatim>\<open>new\<close> without an argument list) and wraps it in a parenthesized expression
  otherwise. Of the kinds of this model the compiler's \<^verbatim>\<open>isLeftHandSideExpressionKind\<close>
  accepts identifiers, string and numeric literals, array literals, calls, property
  accesses and parenthesized expressions; an arrow function, a token, a statement, a
  declaration or a type node is wrapped. \<^verbatim>\<open>parenthesizeListElements\<close> wraps every
  element whose precedence is not above that of the comma operator; the compiler's
  \<^verbatim>\<open>getOperatorPrecedence\<close> puts identifiers, literals, array literals, arrow functions,
  parenthesized expressions, calls and property accesses above it, and gives the kinds
  that are no expressions the lowest precedence.
\<close>

fun leftHandSideForAccess :: "node \<Rightarrow> bool" where
  "leftHandSideForAccess (Identifier s) = True"
| "leftHandSideForAccess (StringLiteral s) = True"
| "leftHandSideForAccess (NumericLiteral s) = True"
| "leftHandSideForAccess (ArrayLiteralExpression es multiLine) = True"
| "leftHandSideForAccess (CallExpression e ta as) = True"
| "leftHandSideForAccess (PropertyAccessExpression e nm) = True"
| "leftHandSideForAccess (ParenthesizedExpression e) = True"
| "leftHandSideForAccess (OtherNode kind lhs high children) = lhs"
| "leftHandSideForAccess n = False"

fun aboveCommaPrecedence :: "node \<Rightarrow> bool" where
  "aboveCommaPrecedence (Identifier s) = True"
| "aboveCommaPrecedence (StringLiteral s) = True"
| "aboveCommaPrecedence (NumericLiteral s) = True"
| "aboveCommaPrecedence (ArrayLiteralExpression es multiLine) = True"
| "aboveCommaPrecedence (CallExpression e ta as) = True"
| "aboveCommaPrecedence (PropertyAccessExpression e nm) = True"
| "aboveCommaPrecedence (ParenthesizedExpression e) = True"
| "aboveCommaPrecedence (ArrowFunction ms tps ps ty tok body) = True"
| "aboveCommaPrecedence (OtherNode kind lhs high children) = high"
| "aboveCommaPrecedence n = False"

definition parenthesizeForAccess :: "node \<Rightarrow> node" where
  "parenthesizeForAccess expr =
     (if leftHandSideForAccess expr then expr
      else ParenthesizedExpression expr)"

definition parenthesizeExpressionForList :: "node \<Rightarrow> node" where
  "parenthesizeExpressionForList expr =
     (if aboveCommaPrecedence expr then expr
      else ParenthesizedExpression expr)"

definition parenthesizeListElements :: "node list \<Rightarrow> node list" where
  "parenthesizeListElements elements = map parenthesizeExpressionForList elements"

definition createPropertyAccess :: "node \<Rightarrow> node \<Rightarrow> node" where
  "createPropertyAccess expr nm =
     PropertyAccessExpression (parenthesizeForAccess expr) nm"

definition createCall :: "node \<Rightarrow> node list option \<Rightarrow> node list \<Rightarrow> node" where
  "createCall expr typeArgs argumentsArray =
     CallExpression (parenthesizeForAccess expr) typeArgs
       (parenthesizeListElements argumentsArray)"

text \<open>
  The other factory functions that add parentheses do so only for operands that
  \<^verbatim>\<open>render.ts\<close> never hands them: \<^verbatim>\<open>createExpressionStatement\<close> when the leftmost
  expression of its operand is an object literal or a function expression or when the
  operand calls a function or arrow expression (here the operand is a call whose callee
  is an identifier, or the top-level chain, which starts at the identifier \<open>lib\<close>);
  \<^verbatim>\<open>createArrayLiteral\<close>, \<^verbatim>\<open>createVariableDeclaration\<close> and \<^verbatim>\<open>createParameter\<close> for
  elements and initializers not above the comma (here string literals, an identifier, a
  call); \<^verbatim>\<open>createArrowFunction\<close> for a body that is not a block;
  \<^verbatim>\<open>createTypeReferenceNode\<close> and \<^verbatim>\<open>createArrayTypeNode\<close> for function and
  composite types (here keyword types). For these the model uses the constructor.
\<close>


section \<open>JavaScript values and operations the code relies on\<close>

text \<open>
  \<^verbatim>\<open>xs.forEach(x => acc.push(f(x)))\<close> appends \<open>f x\<close> to \<open>acc\<close> for each element in turn.
\<close>

definition forEach_push :: "('a \<Rightarrow> 'b) \<Rightarrow> 'a list \<Rightarrow> 'b list \<Rightarrow> 'b list" where
  "forEach_push f xs acc = foldl (\<lambda>acc x. acc @ [f x]) acc xs"

text \<open>\<^verbatim>\<open>Array.prototype.join\<close> on strings.\<close>

fun join :: "string \<Rightarrow> string list \<Rightarrow> string" where
  "join sep [] = []"
| "join sep [x] = x"
| "join sep (x # y # ys) = x @ sep @ join sep (y # ys)"

text \<open>
  \<^verbatim>\<open>Array.prototype.reverse\<close> reverses the array in place and returns the same array. The
  model returns the array handed back and the content of the receiver afterwards.
\<close>

definition array_reverse :: "'a list \<Rightarrow> 'a list \<times> 'a list" where
  "array_reverse xs = (rev xs, rev xs)"

text \<open>
  The spread element \<^verbatim>\<open>...v\<close> of an array literal iterates \<open>v\<close>. An array yields its
  elements; a syntax node is a plain object with no iterator, and spreading it raises a
  \<^verbatim>\<open>TypeError\<close>.
\<close>

datatype error = TypeError

datatype js_value = ArrayValue "node list" | NodeValue node

fun spread :: "js_value \<Rightarrow> error + node list" where
  "spread (ArrayValue xs) = Inr xs"
| "spread (NodeValue n) = Inl TypeError"


section \<open>Inputs of the renderer\<close>

text \<open>
  \<^verbatim>\<open>RenderOptions\<close> and its defaults are declared in \<^verbatim>\<open>render.ts\<close>. The caller hands in
  a \<^verbatim>\<open>Partial<RenderOptions>\<close>: every field may be missing (\<open>None\<close>).
\<close>

record RenderOptions =
  lib :: string
  functionName :: string
  strict :: bool
  "help" :: bool
  helpAlias :: bool
  version :: bool
  asyncFunction :: bool
  runnable :: bool

record PartialRenderOptions =
  lib_opt :: "string option"
  functionName_opt :: "string option"
  strict_opt :: "bool option"
  help_opt :: "bool option"
  helpAlias_opt :: "bool option"
  version_opt :: "bool option"
  asyncFunction_opt :: "bool option"
  runnable_opt :: "bool option"

definition CLI_LIB_NAME :: string where
  "CLI_LIB_NAME = ''yargs''"

definition FUNCTION_NAME :: string where
  "FUNCTION_NAME = ''cli''"

definition DEFAULT_RENDER_OPTIONS :: RenderOptions where
  "DEFAULT_RENDER_OPTIONS =
     \<lparr> lib = CLI_LIB_NAME,
       functionName = FUNCTION_NAME,
       strict = True,
       help = True,
       helpAlias = True,
       version = True,
       asyncFunction = False,
       runnable = False \<rparr>"

text \<open>
  lodash's \<^verbatim>\<open>defaults(object, source)\<close> assigns to \<open>object\<close> every property of \<open>source\<close>
  that \<open>object\<close> resolves to \<^verbatim>\<open>undefined\<close>, and returns \<open>object\<close>: it writes into its
  first argument. \<open>defaults\<close> is the value returned, read as a full \<open>RenderOptions\<close>;
  \<open>object_of\<close> of it is the content of the caller's object after the call.
\<close>

definition defaults :: "PartialRenderOptions \<Rightarrow> RenderOptions \<Rightarrow> RenderOptions" where
  "defaults object source =
     \<lparr> lib = (case lib_opt object of None \<Rightarrow> lib source | Some v \<Rightarrow> v),
       functionName = (case functionName_opt object of None \<Rightarrow> functionName source | Some v \<Rightarrow> v),
       strict = (case strict_opt object of None \<Rightarrow> strict source | Some v \<Rightarrow> v),
       help = (case help_opt object of None \<Rightarrow> help source | Some v \<Rightarrow> v),
       helpAlias = (case helpAlias_opt object of None \<Rightarrow> helpAlias source | Some v \<Rightarrow> v),
       version = (case version_opt object of None \<Rightarrow> version source | Some v \<Rightarrow> v),
       asyncFunction = (case asyncFunction_opt object of None \<Rightarrow> asyncFunction source | Some v \<Rightarrow> v),
       runnable = (case runnable_opt object of None \<Rightarrow> runnable source | Some v \<Rightarrow> v) \<rparr>"

definition object_of :: "RenderOptions \<Rightarrow> PartialRenderOptions" where
  "object_of r =
     \<lparr> lib_opt = Some (lib r),
       functionName_opt = Some (functionName r),
       strict_opt = Some (strict r),
       help_opt = Some (help r),
       helpAlias_opt = Some (helpAlias r),
       version_opt = Some (version r),
       asyncFunction_opt = Some (asyncFunction r),
       runnable_opt = Some (runnable r) \<rparr>"

definition no_options :: PartialRenderOptions where
  "no_options =
     \<lparr> lib_opt = None, functionName_opt = None, strict_opt = None, help_opt = None,
       helpAlias_opt = None, version_opt = None, asyncFunction_opt = None,
       runnable_opt = None \<rparr>"

text \<open>
  \<^verbatim>\<open>Context\<close> (from \<^verbatim>\<open>./generator\<close>), \<^verbatim>\<open>TransformResult\<close> (from \<^verbatim>\<open>./transformer\<close>) and
  ts-morph's \<^verbatim>\<open>SourceFile\<close> are declared outside \<^verbatim>\<open>render.ts\<close>; the records hold the
  fields \<^verbatim>\<open>render.ts\<close> reads. A source file is its path and the compiler nodes of its
  top-level statements. \<^verbatim>\<open>result.ref\<close> is a \<^verbatim>\<open>Map\<close>, iterated in insertion order: an
  association list.
\<close>

record Context =
  stdin :: bool
  args :: "string list option"

record SourceFile =
  filePath :: string
  statements :: "node list"

record ExportInfo =
  exportName :: string
  exportNode :: node

record ExportRefs =
  default_exports :: "ExportInfo list"
  named :: "ExportInfo list"

record TransformResult =
  name :: string
  description :: node
  positionals :: "(string \<times> node) list"
  options :: "(string \<times> node) list"
  ref :: "(SourceFile \<times> ExportRefs) list"

text \<open>
  What \<^verbatim>\<open>render.ts\<close> calls and does not define: Node's \<^verbatim>\<open>require.resolve\<close>, ts-morph's
  \<^verbatim>\<open>getRelativePathAsModuleSpecifierTo\<close> and the transformer's
  \<^verbatim>\<open>getFunctionDeclarationDefaultName\<close>. They are parameters of the model.
  \<^verbatim>\<open>require.resolve\<close> raises when the module is not installed; the model takes the
  resolution of the library to succeed.
\<close>

record Env =
  require_resolve :: "string \<Rightarrow> string"
  getRelativePathAsModuleSpecifierTo :: "SourceFile \<Rightarrow> SourceFile \<Rightarrow> string"
  getFunctionDeclarationDefaultName :: "node \<Rightarrow> string"

text \<open>
  The fields of \<^verbatim>\<open>MakeWrapperOptions\<close> carry the prefix \<open>mw_\<close>, which keeps the names
  \<open>result\<close> and \<open>context\<close> free for the parameters of the functions below.
\<close>

record MakeWrapperOptions =
  mw_outputSourceFile :: SourceFile
  mw_entrySourceFile :: SourceFile
  mw_result :: TransformResult
  mw_context :: Context
  mw_options :: RenderOptions


section \<open>The chain builder\<close>

text \<open>
  \<^verbatim>\<open>replaceCallableProperty(call, expr)\<close>: a new call whose callee is the property access
  of \<open>expr\<close> with \<^verbatim>\<open>call.expression\<close> in the name slot (the cast \<^verbatim>\<open>as ts.Identifier\<close> is
  erased at run time), and with the type arguments and arguments of \<open>call\<close>.
\<close>

definition replaceCallableProperty :: "node \<Rightarrow> node \<Rightarrow> node" where
  "replaceCallableProperty call expr =
     createCall
       (createPropertyAccess expr (expression call))
       (typeArguments call)
       (arguments call)"

text \<open>
  \<^verbatim>\<open>generateCallableChain(calls, expr)\<close> is
  \<^verbatim>\<open>calls.reverse().reduce((acc, call) => expr => replaceCallableProperty(acc(call), expr), a => a)(expr)\<close>.
  \<^verbatim>\<open>reduce\<close> with an initial value is a left fold; the accumulator is a function on
  nodes. \<open>generateCallableChain_st\<close> also returns the content of the array \<open>calls\<close>
  after the call, which \<^verbatim>\<open>reverse\<close> has changed in place.
\<close>

definition generateCallableChain_st :: "node list \<Rightarrow> node \<Rightarrow> node \<times> node list" where
  "generateCallableChain_st calls expr =
     (let (reversed, calls') = array_reverse calls
      in (foldl (\<lambda>acc call. (\<lambda>expr. replaceCallableProperty (acc call) expr))
                (\<lambda>a. a) reversed expr,
          calls'))"

definition generateCallableChain :: "node list \<Rightarrow> node \<Rightarrow> node" where
  "generateCallableChain calls expr = fst (generateCallableChain_st calls expr)"


section \<open>The command node\<close>

definition makePositionalCommandString :: "TransformResult \<Rightarrow> node" where
  "makePositionalCommandString result =
     (let acc = [''$0''];
          acc = forEach_push (\<lambda>(nm, call). ''<'' @ nm @ ''>'') (positionals result) acc;
          acc = (if 0 \<noteq> length (options result) then acc @ [''[...options]''] else acc)
      in StringLiteral (join '' '' acc))"

definition makeBuilder :: "TransformResult \<Rightarrow> node" where
  "makeBuilder result =
     (let acc = [];
          acc = forEach_push (\<lambda>(nm, call). call) (positionals result) acc;
          acc = forEach_push (\<lambda>(nm, call). call) (options result) acc;
          callExpr = generateCallableChain acc (Identifier ''yargs'')
      in ArrowFunction None None
           [Parameter None None None (Identifier ''yargs'') None None None]
           None
           (createToken EqualsGreaterThanToken)
           (Block [ReturnStatement callExpr] True))"

definition makeArrowFunctionNode :: "string \<Rightarrow> node list \<Rightarrow> node" where
  "makeArrowFunctionNode iden body =
     ArrowFunction None None
       [Parameter None None None (Identifier iden) None None None]
       None
       (createToken EqualsGreaterThanToken)
       (Block body False)"

text \<open>
  The four local functions of \<^verbatim>\<open>makeHandler\<close> close over \<open>result\<close>; here they take it
  as their argument. (\<^verbatim>\<open>makeHandler\<close> also fills a local array \<open>acc\<close> that it never
  reads.)
\<close>

definition makePositionalBindingNodes :: "TransformResult \<Rightarrow> node list" where
  "makePositionalBindingNodes result =
     map (\<lambda>(nm, call). BindingElement None None (Identifier nm) None) (positionals result)"

definition makePositionalIdentifierNodes :: "TransformResult \<Rightarrow> node list" where
  "makePositionalIdentifierNodes result =
     map (\<lambda>(nm, call). Identifier nm) (positionals result)"

definition makeDeconstructNode :: "TransformResult \<Rightarrow> node" where
  "makeDeconstructNode result =
     VariableStatement None
       (VariableDeclarationList
         [VariableDeclaration
            (ObjectBindingPattern
              ([BindingElement None None (Identifier ''_'') None,
                BindingElement None None (Identifier ''$0'') None]
               @ makePositionalBindingNodes result
               @ (if length (options result) \<noteq> 0
                  then [BindingElement (Some (createToken DotDotDotToken)) None
                          (Identifier ''options'') None]
                  else [])))
            None
            (Identifier ''args'')]
         Const)"

definition makeCommandApplyNode :: "TransformResult \<Rightarrow> node" where
  "makeCommandApplyNode result =
     ExpressionStatement
       (createCall (Identifier (name result)) None
         (makePositionalIdentifierNodes result
          @ (if length (options result) \<noteq> 0 then [Identifier ''options''] else [])))"

definition makeHandler :: "TransformResult \<Rightarrow> node" where
  "makeHandler result =
     makeArrowFunctionNode ''args'' [makeDeconstructNode result, makeCommandApplyNode result]"

definition makeCommandNode :: "TransformResult \<Rightarrow> node" where
  "makeCommandNode result =
     createCall (Identifier ''command'') None
       [makePositionalCommandString result,
        description result,
        makeBuilder result,
        makeHandler result]"


section \<open>The wrapper\<close>

definition makeCliCallNode :: "string \<Rightarrow> string list option \<Rightarrow> error + node" where
  "makeCliCallNode nm argv =
     (case spread (case argv of
                     Some as \<Rightarrow> NodeValue (ArrayLiteralExpression (map StringLiteral as) False)
                   | None \<Rightarrow> ArrayValue []) of
        Inl e \<Rightarrow> Inl e
      | Inr elements \<Rightarrow> Inr (createCall (Identifier nm) None elements))"

definition makeLibImportDeclarationNode :: "Env \<Rightarrow> string \<Rightarrow> string \<Rightarrow> Context \<Rightarrow> node" where
  "makeLibImportDeclarationNode env exporter path context =
     (let modulePath = (if stdin context then require_resolve env path else path)
      in ImportDeclaration None None
           (ImportClause None (NamespaceImport (Identifier exporter)))
           (StringLiteral modulePath))"

definition makeRefImportDeclarationNode :: "Env \<Rightarrow> SourceFile \<Rightarrow> TransformResult \<Rightarrow> node list" where
  "makeRefImportDeclarationNode env outputSourceFile result =
     forEach_push
       (\<lambda>(sourceFile, refs).
          let filePath = getRelativePathAsModuleSpecifierTo env outputSourceFile sourceFile;
              defaultExporter =
                (case default_exports refs of
                   [] \<Rightarrow> None
                 | d # ds \<Rightarrow> Some (Identifier (getFunctionDeclarationDefaultName env (exportNode d))))
          in ImportDeclaration None None
               (ImportClause defaultExporter
                 (NamedImports
                   (map (\<lambda>info. ImportSpecifier None (Identifier (exportName info))) (named refs))))
               (StringLiteral filePath))
       (ref result) []"

definition makeWrapperFunctionDeclaration :: "node list \<Rightarrow> RenderOptions \<Rightarrow> node" where
  "makeWrapperFunctionDeclaration body opts =
     (let modifiers = [createModifier ExportKeyword, createModifier DefaultKeyword];
          modifiers = (if asyncFunction opts then modifiers @ [createModifier AsyncKeyword]
                       else modifiers);
          returnType =
            (if asyncFunction opts
             then TypeReferenceNode (Identifier ''Promise'') [createKeywordTypeNode VoidKeyword]
             else createKeywordTypeNode VoidKeyword)
      in FunctionDeclaration None modifiers None
           (Identifier (functionName opts))
           None
           [Parameter None None None (Identifier ''args'') None
              (Some (ArrayTypeNode (createKeywordTypeNode StringKeyword)))
              (Some (createCall
                      (createPropertyAccess
                        (createPropertyAccess (Identifier ''process'') (Identifier ''argv''))
                        (Identifier ''slice''))
                      None
                      [NumericLiteral ''2'']))]
           returnType
           (Block body True))"

definition makeWrapper :: "Env \<Rightarrow> node list \<Rightarrow> MakeWrapperOptions \<Rightarrow> error + node list" where
  "makeWrapper env body wopts =
     (let nodes = [];
          nodes = nodes @ [makeLibImportDeclarationNode env ''yargs'' ''yargs'' (mw_context wopts)];
          nodes = (if stdin (mw_context wopts)
                   then forEach_push (\<lambda>stmt. stmt) (statements (mw_entrySourceFile wopts)) nodes
                   else forEach_push (\<lambda>node. node)
                          (makeRefImportDeclarationNode env (mw_outputSourceFile wopts) (mw_result wopts))
                          nodes);
          nodes = nodes @ [makeWrapperFunctionDeclaration body (mw_options wopts)]
      in if runnable (mw_options wopts) \<or> stdin (mw_context wopts)
         then (case makeCliCallNode (functionName (mw_options wopts)) (args (mw_context wopts)) of
                 Inl e \<Rightarrow> Inl e
               | Inr call \<Rightarrow> Inr (nodes @ [call]))
         else Inr nodes)"


section \<open>The render orchestrator\<close>

text \<open>
  \<open>render_acc\<close> is the array \<open>acc\<close> of \<^verbatim>\<open>render\<close> after its six (conditional) pushes;
  \<open>render_st\<close> is \<^verbatim>\<open>render\<close>, returning next to its result the content of the caller's
  \<open>options\<close> object after the call (\<^verbatim>\<open>defaults\<close> has written into it).
\<close>

definition render_acc :: "RenderOptions \<Rightarrow> TransformResult \<Rightarrow> node list" where
  "render_acc opts result =
     (let acc = [];
          acc = (if strict opts then acc @ [createCall (Identifier ''strict'') None []] else acc);
          acc = acc @ [makeCommandNode result];
          acc = (if help opts then acc @ [createCall (Identifier ''help'') None []] else acc);
          acc = (if helpAlias opts
                 then acc @ [createCall (Identifier ''alias'') None
                               [StringLiteral ''help'', StringLiteral ''h'']]
                 else acc);
          acc = (if version opts then acc @ [createCall (Identifier ''version'') None []] else acc);
          acc = acc @ [createCall (Identifier ''parse'') None [Identifier ''args'']]
      in acc)"

definition render_st ::
  "Env \<Rightarrow> TransformResult \<Rightarrow> SourceFile \<Rightarrow> SourceFile \<Rightarrow> PartialRenderOptions \<Rightarrow> Context
   \<Rightarrow> (error + node list) \<times> PartialRenderOptions" where
  "render_st env result outputSourceFile entrySourceFile user_options context =
     (let opts = defaults user_options DEFAULT_RENDER_OPTIONS;
          options' = object_of opts;
          acc = render_acc opts result;
          callableChainNodes = generateCallableChain acc (Identifier (lib opts));
          yargsNode = ExpressionStatement callableChainNodes
      in (makeWrapper env [yargsNode]
            \<lparr> mw_outputSourceFile = outputSourceFile,
              mw_entrySourceFile = entrySourceFile,
              mw_result = result,
              mw_context = context,
              mw_options = opts \<rparr>,
          options'))"

definition render ::
  "Env \<Rightarrow> TransformResult \<Rightarrow> SourceFile \<Rightarrow> SourceFile \<Rightarrow> PartialRenderOptions \<Rightarrow> Context
   \<Rightarrow> error + node list" where
  "render env result outputSourceFile entrySourceFile user_options context =
     fst (render_st env result outputSourceFile entrySourceFile user_options context)"


section \<open>Shapes and sample inputs\<close>


text \<open>
  The shape the chain builder leaves in the name slot: the calls before the last one, each
  the receiver of a property access whose name is the rest of the nest, ending in the
  callee of the last call. It is nested to the right.
\<close>

fun name_nest :: "node list \<Rightarrow> node \<Rightarrow> node" where
  "name_nest [] e = e"
| "name_nest (c # cs) e = PropertyAccessExpression c (name_nest cs e)"

text \<open>Sample inputs, for the concrete instances below.\<close>

definition example_env :: Env where
  "example_env =
     \<lparr> require_resolve = (\<lambda>path. ''/node_modules/'' @ path),
       getRelativePathAsModuleSpecifierTo = (\<lambda>from to. ''./'' @ filePath to),
       getFunctionDeclarationDefaultName = (\<lambda>decl. ''fn'') \<rparr>"

definition example_file :: SourceFile where
  "example_file =
     \<lparr> filePath = ''entry'',
       statements = [OtherNode ''ClassDeclaration'' False False []] \<rparr>"

definition example_result :: TransformResult where
  "example_result =
     \<lparr> name = ''fn'',
       description = StringLiteral ''copy'',
       positionals =
         [(''file'', CallExpression (Identifier ''positional'') None [StringLiteral ''file'']),
          (''out'', CallExpression (Identifier ''positional'') None [StringLiteral ''out''])],
       options =
         [(''force'', CallExpression (Identifier ''option'') None [StringLiteral ''force''])],
       ref = [] \<rparr>"

definition strict_call :: node where
  "strict_call = CallExpression (Identifier ''strict'') None []"

definition parse_call :: node where
  "parse_call = CallExpression (Identifier ''parse'') None [Identifier ''args'']"



section \<open>Auxiliary facts\<close>

lemmas factory_defs =
  createCall_def createPropertyAccess_def parenthesizeForAccess_def
  parenthesizeExpressionForList_def parenthesizeListElements_def

lemma forEach_push_map: "forEach_push f xs acc = acc @ map f xs"
  unfolding forEach_push_def by (induction xs arbitrary: acc) simp_all

lemma join_cons: "join sep (x # xs) = x @ concat (map (\<lambda>y. sep @ y) xs)"
  by (induction xs arbitrary: x) simp_all

lemma parenthesizeExpressionForList_idem:
  "parenthesizeExpressionForList (parenthesizeExpressionForList a) = parenthesizeExpressionForList a"
  by (simp add: parenthesizeExpressionForList_def)

lemma parenthesizeListElements_idem:
  "parenthesizeListElements (parenthesizeListElements as) = parenthesizeListElements as"
  by (simp add: parenthesizeListElements_def parenthesizeExpressionForList_idem)

lemma parenthesizeListElements_Identifier:
  "parenthesizeListElements (map Identifier xs) = map Identifier xs"
  by (induction xs) (simp_all add: parenthesizeListElements_def parenthesizeExpressionForList_def)

lemma parenthesizeForAccess_calls:
  "list_all isCallExpression cs \<Longrightarrow> map parenthesizeForAccess cs = cs"
proof (induction cs)
  case Nil
  show ?case by simp
next
  case (Cons c cs)
  then obtain e ta as where "c = CallExpression e ta as"
    by (cases c) simp_all
  with Cons show ?case by (simp add: parenthesizeForAccess_def)
qed

lemma createCall_Identifier:
  "createCall (Identifier f) ta as = CallExpression (Identifier f) ta (parenthesizeListElements as)"
  by (simp add: createCall_def parenthesizeForAccess_def)

lemma replaceCallableProperty_call:
  "replaceCallableProperty (CallExpression e ta as) x
   = CallExpression (PropertyAccessExpression (parenthesizeForAccess x) e) ta
       (parenthesizeListElements as)"
  by (simp add: replaceCallableProperty_def createCall_def createPropertyAccess_def
        parenthesizeForAccess_def)

lemma chain_fold_snoc:
  "foldl (\<lambda>acc call. (\<lambda>expr. replaceCallableProperty (acc call) expr)) (\<lambda>a. a)
     (rev (cs @ [CallExpression e ta as])) x
   = CallExpression
       (PropertyAccessExpression (parenthesizeForAccess x)
         (name_nest (map parenthesizeForAccess cs) e))
       ta (parenthesizeListElements as)"
proof (induction cs arbitrary: x)
  case Nil
  show ?case by (simp add: replaceCallableProperty_call)
next
  case (Cons c cs)
  let ?step = "\<lambda>acc call. (\<lambda>expr. replaceCallableProperty (acc call) expr)"
  have split: "rev ((c # cs) @ [CallExpression e ta as]) = rev (cs @ [CallExpression e ta as]) @ [c]"
    by simp
  have "foldl ?step (\<lambda>a. a) (rev ((c # cs) @ [CallExpression e ta as])) x
        = replaceCallableProperty (foldl ?step (\<lambda>a. a) (rev (cs @ [CallExpression e ta as])) c) x"
    by (simp only: split foldl_append foldl.simps)
  also have "\<dots> = replaceCallableProperty
                     (CallExpression
                        (PropertyAccessExpression (parenthesizeForAccess c)
                          (name_nest (map parenthesizeForAccess cs) e))
                        ta (parenthesizeListElements as)) x"
    by (simp only: Cons.IH)
  also have "\<dots> = CallExpression
                     (PropertyAccessExpression (parenthesizeForAccess x)
                       (name_nest (map parenthesizeForAccess (c # cs)) e))
                     ta (parenthesizeListElements as)"
    by (simp add: replaceCallableProperty_call parenthesizeListElements_idem)
  finally show ?case .
qed


lemma generateCallableChain_snoc:
  "generateCallableChain (cs @ [CallExpression e ta as]) base
   = CallExpression
       (PropertyAccessExpression (parenthesizeForAccess base)
         (name_nest (map parenthesizeForAccess cs) e))
       ta (parenthesizeListElements as)"
  unfolding generateCallableChain_def generateCallableChain_st_def array_reverse_def
  using chain_fold_snoc [of cs e ta as base] by simp

lemma generateCallableChain_calls:
  assumes "list_all isCallExpression cs"
  shows "generateCallableChain (cs @ [CallExpression e ta as]) base
   = CallExpression
       (PropertyAccessExpression (parenthesizeForAccess base) (name_nest cs e))
       ta (parenthesizeListElements as)"
  by (simp only: generateCallableChain_snoc parenthesizeForAccess_calls [OF assms])

lemma generateCallableChain_single:
  "generateCallableChain [CallExpression e ta as] base
   = CallExpression (PropertyAccessExpression (parenthesizeForAccess base) e) ta
       (parenthesizeListElements as)"
  using generateCallableChain_snoc [of "[]" e ta as base] by simp


lemma raw_calls_are_calls:
  "list_all isCallExpression (map (\<lambda>(e, ta, as). CallExpression e ta as) cs)"
  by (induction cs) auto


lemma makeBuilder_node:
  "makeBuilder r =
     ArrowFunction None None
       [Parameter None None None (Identifier ''yargs'') None None None]
       None (Token EqualsGreaterThanToken)
       (Block
         [ReturnStatement
            (generateCallableChain (map snd (positionals r) @ map snd (options r))
               (Identifier ''yargs''))]
         True)"
  by (simp add: makeBuilder_def Let_def forEach_push_map createToken_def case_prod_unfold)

lemma makeCommandNode_node:
  "makeCommandNode r =
     CallExpression (Identifier ''command'') None
       [makePositionalCommandString r, parenthesizeExpressionForList (description r),
        makeBuilder r, makeHandler r]"
  by (simp add: makeCommandNode_def createCall_Identifier parenthesizeListElements_def
        parenthesizeExpressionForList_def makePositionalCommandString_def Let_def
        makeBuilder_def makeHandler_def makeArrowFunctionNode_def)

lemma render_acc_shape:
  "render_acc opts r =
     (if strict opts then [CallExpression (Identifier ''strict'') None []] else [])
     @ [makeCommandNode r]
     @ (if help opts then [CallExpression (Identifier ''help'') None []] else [])
     @ (if helpAlias opts
        then [CallExpression (Identifier ''alias'') None [StringLiteral ''help'', StringLiteral ''h'']]
        else [])
     @ (if version opts then [CallExpression (Identifier ''version'') None []] else [])
     @ [CallExpression (Identifier ''parse'') None [Identifier ''args'']]"
  by (simp add: render_acc_def Let_def createCall_Identifier parenthesizeListElements_def
        parenthesizeExpressionForList_def)

lemma render_acc_front_calls:
  "list_all isCallExpression
     ((if strict opts then [CallExpression (Identifier ''strict'') None []] else [])
      @ [makeCommandNode r]
      @ (if help opts then [CallExpression (Identifier ''help'') None []] else [])
      @ (if helpAlias opts
         then [CallExpression (Identifier ''alias'') None [StringLiteral ''help'', StringLiteral ''h'']]
         else [])
      @ (if version opts then [CallExpression (Identifier ''version'') None []] else []))"
  by (simp add: makeCommandNode_node)

lemma render_chain_tree:
  "generateCallableChain (render_acc opts r) base
     = CallExpression
         (PropertyAccessExpression (parenthesizeForAccess base)
           (name_nest
             ((if strict opts then [CallExpression (Identifier ''strict'') None []] else [])
              @ [makeCommandNode r]
              @ (if help opts then [CallExpression (Identifier ''help'') None []] else [])
              @ (if helpAlias opts
                 then [CallExpression (Identifier ''alias'') None
                         [StringLiteral ''help'', StringLiteral ''h'']]
                 else [])
              @ (if version opts then [CallExpression (Identifier ''version'') None []] else []))
             (Identifier ''parse'')))
         None [Identifier ''args'']"
proof -
  let ?front =
    "(if strict opts then [CallExpression (Identifier ''strict'') None []] else [])
     @ [makeCommandNode r]
     @ (if help opts then [CallExpression (Identifier ''help'') None []] else [])
     @ (if helpAlias opts
        then [CallExpression (Identifier ''alias'') None
                [StringLiteral ''help'', StringLiteral ''h'']]
        else [])
     @ (if version opts then [CallExpression (Identifier ''version'') None []] else [])"
  have snoc: "render_acc opts r
              = ?front @ [CallExpression (Identifier ''parse'') None [Identifier ''args'']]"
    by (simp add: render_acc_shape)
  have "generateCallableChain (render_acc opts r) base
        = CallExpression
            (PropertyAccessExpression (parenthesizeForAccess base)
               (name_nest ?front (Identifier ''parse'')))
            None (parenthesizeListElements [Identifier ''args''])"
    by (simp only: snoc generateCallableChain_calls [OF render_acc_front_calls])
  then show ?thesis
    by (simp add: parenthesizeListElements_def parenthesizeExpressionForList_def)
qed

lemma render_unfold:
  "render env r out entry uo ctx
   = makeWrapper env
       [ExpressionStatement
          (generateCallableChain (render_acc (defaults uo DEFAULT_RENDER_OPTIONS) r)
             (Identifier (lib (defaults uo DEFAULT_RENDER_OPTIONS))))]
       \<lparr> mw_outputSourceFile = out, mw_entrySourceFile = entry, mw_result = r,
         mw_context = ctx, mw_options = defaults uo DEFAULT_RENDER_OPTIONS \<rparr>"
  by (simp add: render_def render_st_def Let_def)

lemma makeWrapper_nodes:
  "makeWrapper env body w =
     (if runnable (mw_options w) \<or> stdin (mw_context w)
      then (case makeCliCallNode (functionName (mw_options w)) (args (mw_context w)) of
              Inl e \<Rightarrow> Inl e
            | Inr call \<Rightarrow>
                Inr ((makeLibImportDeclarationNode env ''yargs'' ''yargs'' (mw_context w)
                      # (if stdin (mw_context w) then statements (mw_entrySourceFile w)
                         else makeRefImportDeclarationNode env (mw_outputSourceFile w) (mw_result w))
                      @ [makeWrapperFunctionDeclaration body (mw_options w)])
                     @ [call]))
      else Inr (makeLibImportDeclarationNode env ''yargs'' ''yargs'' (mw_context w)
                # (if stdin (mw_context w) then statements (mw_entrySourceFile w)
                   else makeRefImportDeclarationNode env (mw_outputSourceFile w) (mw_result w))
                @ [makeWrapperFunctionDeclaration body (mw_options w)]))"
  by (simp add: makeWrapper_def Let_def forEach_push_map split: sum.split)

lemma makeWrapper_no_invocation:
  assumes "\<not> runnable (mw_options w)" and "\<not> stdin (mw_context w)"
  shows "makeWrapper env body w
         = Inr (makeLibImportDeclarationNode env ''yargs'' ''yargs'' (mw_context w)
                # makeRefImportDeclarationNode env (mw_outputSourceFile w) (mw_result w)
                @ [makeWrapperFunctionDeclaration body (mw_options w)])"
  using assms by (simp add: makeWrapper_nodes)

lemma makeRefImportDeclarationNode_imports:
  "n \<in> set (makeRefImportDeclarationNode env out r) \<Longrightarrow> \<not> isCallExpression n"
  by (auto simp add: makeRefImportDeclarationNode_def forEach_push_map Let_def)

lemma makeWrapper_no_call_nodes:
  assumes "\<not> runnable (mw_options w)" and "\<not> stdin (mw_context w)"
    and "makeWrapper env body w = Inr ns"
  shows "last ns = makeWrapperFunctionDeclaration body (mw_options w)"
    and "\<forall>n \<in> set ns. \<not> isCallExpression n"
proof -
  from assms have ns:
    "ns = makeLibImportDeclarationNode env ''yargs'' ''yargs'' (mw_context w)
          # makeRefImportDeclarationNode env (mw_outputSourceFile w) (mw_result w)
          @ [makeWrapperFunctionDeclaration body (mw_options w)]"
    by (simp add: makeWrapper_no_invocation)
  show "last ns = makeWrapperFunctionDeclaration body (mw_options w)"
    by (simp add: ns)
  have "\<not> isCallExpression (makeLibImportDeclarationNode env ''yargs'' ''yargs'' (mw_context w))"
    by (simp add: makeLibImportDeclarationNode_def Let_def)
  moreover have "\<not> isCallExpression (makeWrapperFunctionDeclaration body (mw_options w))"
    by (simp add: makeWrapperFunctionDeclaration_def Let_def)
  ultimately show "\<forall>n \<in> set ns. \<not> isCallExpression n"
    using makeRefImportDeclarationNode_imports by (auto simp add: ns)
qed

lemma makeWrapper_stdin_no_args:
  assumes "stdin (mw_context w)" and "args (mw_context w) = None"
  shows "makeWrapper env body w
         = Inr (makeLibImportDeclarationNode env ''yargs'' ''yargs'' (mw_context w)
                # statements (mw_entrySourceFile w)
                @ [makeWrapperFunctionDeclaration body (mw_options w),
                   CallExpression (Identifier (functionName (mw_options w))) None []])"
  using assms
  by (simp add: makeWrapper_nodes makeCliCallNode_def createCall_Identifier
        parenthesizeListElements_def)

lemma makeWrapper_Inr:
  assumes "makeWrapper env body w = Inr ns"
  shows "\<exists>tail. ns = makeLibImportDeclarationNode env ''yargs'' ''yargs'' (mw_context w)
                   # (if stdin (mw_context w) then statements (mw_entrySourceFile w)
                      else makeRefImportDeclarationNode env (mw_outputSourceFile w) (mw_result w))
                   @ makeWrapperFunctionDeclaration body (mw_options w) # tail"
proof (cases "runnable (mw_options w) \<or> stdin (mw_context w)")
  case True
  show ?thesis
  proof (cases "makeCliCallNode (functionName (mw_options w)) (args (mw_context w))")
    case (Inl e)
    with True assms show ?thesis by (simp add: makeWrapper_nodes)
  next
    case (Inr call)
    with True assms show ?thesis
      by (auto simp add: makeWrapper_nodes split: if_splits)
  qed
next
  case False
  with assms show ?thesis by (auto simp add: makeWrapper_nodes)
qed

lemma render_Inr_contents:
  assumes "render env r out entry uo ctx = Inr ns"
  shows "hd ns = makeLibImportDeclarationNode env ''yargs'' ''yargs'' ctx"
    and "makeWrapperFunctionDeclaration
           [ExpressionStatement
              (generateCallableChain (render_acc (defaults uo DEFAULT_RENDER_OPTIONS) r)
                 (Identifier (lib (defaults uo DEFAULT_RENDER_OPTIONS))))]
           (defaults uo DEFAULT_RENDER_OPTIONS) \<in> set ns"
proof -
  let ?w = "\<lparr> mw_outputSourceFile = out, mw_entrySourceFile = entry, mw_result = r,
              mw_context = ctx, mw_options = defaults uo DEFAULT_RENDER_OPTIONS \<rparr>"
  let ?body = "[ExpressionStatement
                  (generateCallableChain (render_acc (defaults uo DEFAULT_RENDER_OPTIONS) r)
                     (Identifier (lib (defaults uo DEFAULT_RENDER_OPTIONS))))]"
  from assms have "makeWrapper env ?body ?w = Inr ns"
    by (simp only: render_unfold)
  from makeWrapper_Inr [OF this] obtain tail mid where ns:
    "ns = makeLibImportDeclarationNode env ''yargs'' ''yargs'' (mw_context ?w)
          # mid @ makeWrapperFunctionDeclaration ?body (mw_options ?w) # tail"
    by blast
  show "hd ns = makeLibImportDeclarationNode env ''yargs'' ''yargs'' ctx"
    by (simp add: ns)
  show "makeWrapperFunctionDeclaration ?body (defaults uo DEFAULT_RENDER_OPTIONS) \<in> set ns"
    by (simp add: ns)
qed

lemma example_refs_empty:
  "makeRefImportDeclarationNode example_env example_file example_result = []"
  by (simp add: makeRefImportDeclarationNode_def forEach_push_map example_result_def)

lemma defaults_without_lib:
  "strict (defaults (uo\<lparr>lib_opt := None\<rparr>) d) = strict (defaults uo d)"
  "help (defaults (uo\<lparr>lib_opt := None\<rparr>) d) = help (defaults uo d)"
  "helpAlias (defaults (uo\<lparr>lib_opt := None\<rparr>) d) = helpAlias (defaults uo d)"
  "version (defaults (uo\<lparr>lib_opt := None\<rparr>) d) = version (defaults uo d)"
  "asyncFunction (defaults (uo\<lparr>lib_opt := None\<rparr>) d) = asyncFunction (defaults uo d)"
  "runnable (defaults (uo\<lparr>lib_opt := None\<rparr>) d) = runnable (defaults uo d)"
  "functionName (defaults (uo\<lparr>lib_opt := None\<rparr>) d) = functionName (defaults uo d)"
  by (simp_all add: defaults_def)

lemma defaults_lib:
  "lib (defaults uo DEFAULT_RENDER_OPTIONS) = (case lib_opt uo of None \<Rightarrow> ''yargs'' | Some v \<Rightarrow> v)"
  by (simp add: defaults_def DEFAULT_RENDER_OPTIONS_def CLI_LIB_NAME_def split: option.split)

lemma render_acc_without_lib:
  "render_acc (defaults (uo\<lparr>lib_opt := None\<rparr>) d) r = render_acc (defaults uo d) r"
  by (simp only: render_acc_shape defaults_without_lib)

lemma makeWrapperFunctionDeclaration_without_lib:
  "makeWrapperFunctionDeclaration body (defaults (uo\<lparr>lib_opt := None\<rparr>) d)
   = makeWrapperFunctionDeclaration body (defaults uo d)"
  by (simp only: makeWrapperFunctionDeclaration_def defaults_without_lib)


section \<open>The chain builder: shape of the result\<close>





section \<open>The chain builder: callees that are not identifiers\<close>

text \<open>
  Claim C4 says that a call whose callee is already a property access makes the chain
  builder fail with an error. The code does not look at the callee: the cast
  \<^verbatim>\<open>as ts.Identifier\<close> is erased, and the callee goes into the name slot as it is. For
  the single call \<^verbatim>\<open>a.b()\<close> on \<^verbatim>\<open>yargs\<close> the builder returns a call on the property
  access of \<^verbatim>\<open>yargs\<close> whose name is the property access \<^verbatim>\<open>a.b\<close>.
\<close>

theorem non_identifier_callee_counterexample:
  "generateCallableChain
     [CallExpression (PropertyAccessExpression (Identifier ''a'') (Identifier ''b'')) None []]
     (Identifier ''yargs'')
   = CallExpression
       (PropertyAccessExpression (Identifier ''yargs'')
         (PropertyAccessExpression (Identifier ''a'') (Identifier ''b'')))
       None []
   \<and> \<not> isIdentifier (PropertyAccessExpression (Identifier ''a'') (Identifier ''b''))"
  by (simp add: generateCallableChain_def generateCallableChain_st_def array_reverse_def
        replaceCallableProperty_def factory_defs)

text \<open>
  Claim C4, amended: whatever the callees of the calls are, identifiers or not, the chain
  builder returns for a non-empty sequence the same tree as for standalone calls: the
  type arguments of the last call and its arguments as the factory stores them, on a
  property access whose receiver is the base (in parentheses if it is not a left-hand-side
  expression) and whose name slot nests the earlier calls, each whole with its callee, down
  to the callee of the last call, unchanged.
\<close>

theorem non_identifier_callee_kept:
  "generateCallableChain
     (map (\<lambda>(e, ta, as). CallExpression e ta as) cs @ [CallExpression e ta as]) base
   = CallExpression
       (PropertyAccessExpression (parenthesizeForAccess base)
         (name_nest (map (\<lambda>(e, ta, as). CallExpression e ta as) cs) e))
       ta (parenthesizeListElements as)"
  by (rule generateCallableChain_calls [OF raw_calls_are_calls])


section \<open>The command string\<close>

text \<open>
  Claim C6: the command string is \<^verbatim>\<open>$0\<close>, then \<^verbatim>\<open> <name>\<close> for every positional in declared
  order, then \<^verbatim>\<open> [...options]\<close> if and only if there is at least one option.
\<close>

theorem makePositionalCommandString_text:
  "makePositionalCommandString r =
     StringLiteral (''$0'' @ concat (map (\<lambda>(nm, call). '' <'' @ nm @ ''>'') (positionals r))
                    @ (if options r = [] then [] else '' [...options]''))"
  by (simp add: makePositionalCommandString_def Let_def forEach_push_map join_cons
        case_prod_unfold comp_def)

text \<open>The two instances the claim names: nothing declared, and \<open>file\<close>, \<open>out\<close> with one option.\<close>

theorem makePositionalCommandString_text_witness:
  "makePositionalCommandString (example_result\<lparr>positionals := [], options := []\<rparr>)
     = StringLiteral ''$0''
   \<and> makePositionalCommandString example_result
     = StringLiteral ''$0 <file> <out> [...options]''"
  using makePositionalCommandString_text [of "example_result\<lparr>positionals := [], options := []\<rparr>"]
    makePositionalCommandString_text [of example_result]
  by (simp add: example_result_def)


section \<open>The handler callback\<close>

text \<open>
  Claim C5: the body of the handler is two statements. The first destructures the
  parameter \<open>args\<close> into \<open>_\<close>, \<open>$0\<close>, one binding per positional in declared order and, if
  and only if there is an option, the rest element \<open>options\<close>. The second calls
  \<open>name r\<close> on the positional identifiers in declared order, followed by \<open>options\<close> if and
  only if there is an option.
\<close>

theorem makeHandler_body:
  "makeHandler r =
     ArrowFunction None None
       [Parameter None None None (Identifier ''args'') None None None]
       None (Token EqualsGreaterThanToken)
       (Block
         [VariableStatement None
            (VariableDeclarationList
              [VariableDeclaration
                 (ObjectBindingPattern
                   (map (\<lambda>nm. BindingElement None None (Identifier nm) None)
                        ([''_'', ''$0''] @ map fst (positionals r))
                    @ (if options r = [] then []
                       else [BindingElement (Some (Token DotDotDotToken)) None
                               (Identifier ''options'') None])))
                 None
                 (Identifier ''args'')]
              Const),
          ExpressionStatement
            (CallExpression (Identifier (name r)) None
              (map Identifier
                 (map fst (positionals r) @ (if options r = [] then [] else [''options'']))))]
         False)"
proof -
  have ids: "makePositionalIdentifierNodes r
             @ (if length (options r) \<noteq> 0 then [Identifier ''options''] else [])
             = map Identifier
                 (map fst (positionals r) @ (if options r = [] then [] else [''options'']))"
    by (simp add: makePositionalIdentifierNodes_def case_prod_unfold comp_def)
  have call_stmt: "makeCommandApplyNode r
               = ExpressionStatement
                   (CallExpression (Identifier (name r)) None
                     (map Identifier
                        (map fst (positionals r)
                         @ (if options r = [] then [] else [''options'']))))"
    by (simp only: makeCommandApplyNode_def ids createCall_Identifier
          parenthesizeListElements_Identifier)
  show ?thesis
    by (simp add: makeHandler_def makeArrowFunctionNode_def makeDeconstructNode_def
          call_stmt makePositionalBindingNodes_def createToken_def case_prod_unfold comp_def)
qed


section \<open>What the calls leave behind in their inputs\<close>

text \<open>
  Claim C3 says that no operation changes its inputs. \<^verbatim>\<open>calls.reverse()\<close> reverses the
  caller's array in place, and \<^verbatim>\<open>defaults(options, DEFAULT_RENDER_OPTIONS)\<close> assigns the
  defaults into the caller's options object: after the chain builder has run on
  \<^verbatim>\<open>[strict(), parse(args)]\<close> the array holds \<^verbatim>\<open>[parse(args), strict()]\<close>, and after
  \<^verbatim>\<open>render\<close> has run on an empty options object the object holds every default.
\<close>

theorem inputs_changed_counterexample:
  "snd (generateCallableChain_st [strict_call, parse_call] (Identifier ''yargs''))
     \<noteq> [strict_call, parse_call]
   \<and> snd (render_st example_env example_result example_file example_file no_options
            \<lparr>stdin = False, args = None\<rparr>)
     \<noteq> no_options"
  by (simp add: generateCallableChain_st_def array_reverse_def strict_call_def parse_call_def
        render_st_def Let_def object_of_def no_options_def)

text \<open>
  Claim C3, amended: after \<^verbatim>\<open>generateCallableChain\<close> the input array holds the same
  elements in reverse order; after \<^verbatim>\<open>render\<close> the caller's options object holds, in every
  field, the caller's value where there was one and the default where there was none.
\<close>

theorem inputs_after_call:
  "snd (generateCallableChain_st calls base) = rev calls
   \<and> snd (render_st env r out entry uo ctx)
     = \<lparr> lib_opt = Some (case lib_opt uo of None \<Rightarrow> ''yargs'' | Some v \<Rightarrow> v),
         functionName_opt = Some (case functionName_opt uo of None \<Rightarrow> ''cli'' | Some v \<Rightarrow> v),
         strict_opt = Some (case strict_opt uo of None \<Rightarrow> True | Some v \<Rightarrow> v),
         help_opt = Some (case help_opt uo of None \<Rightarrow> True | Some v \<Rightarrow> v),
         helpAlias_opt = Some (case helpAlias_opt uo of None \<Rightarrow> True | Some v \<Rightarrow> v),
         version_opt = Some (case version_opt uo of None \<Rightarrow> True | Some v \<Rightarrow> v),
         asyncFunction_opt = Some (case asyncFunction_opt uo of None \<Rightarrow> False | Some v \<Rightarrow> v),
         runnable_opt = Some (case runnable_opt uo of None \<Rightarrow> False | Some v \<Rightarrow> v) \<rparr>"
  by (simp add: generateCallableChain_st_def array_reverse_def render_st_def Let_def
        object_of_def defaults_def DEFAULT_RENDER_OPTIONS_def CLI_LIB_NAME_def FUNCTION_NAME_def
        split: option.split)


section \<open>Default options\<close>

text \<open>
  Claim C8: \<^verbatim>\<open>render\<close> works with the caller's options merged over the defaults, the
  caller's fields winning. What \<^verbatim>\<open>render\<close> returns is what the wrapper assembler returns
  for the merged options, on the chain of the links that the merged options select,
  rooted at the merged \<open>lib\<close>. With no override these are the defaults: all of
  \<^verbatim>\<open>strict()\<close>, \<^verbatim>\<open>help()\<close>, \<^verbatim>\<open>alias("help", "h")\<close> and \<^verbatim>\<open>version()\<close> are in the chain, and
  \<open>asyncFunction\<close> and \<open>runnable\<close> are off. Overriding \<open>asyncFunction\<close> alone changes
  that field alone.
\<close>

theorem render_default_merging:
  "render env r out entry uo ctx =
     (let opts =
            \<lparr> lib = (case lib_opt uo of None \<Rightarrow> ''yargs'' | Some v \<Rightarrow> v),
              functionName = (case functionName_opt uo of None \<Rightarrow> ''cli'' | Some v \<Rightarrow> v),
              strict = (case strict_opt uo of None \<Rightarrow> True | Some v \<Rightarrow> v),
              help = (case help_opt uo of None \<Rightarrow> True | Some v \<Rightarrow> v),
              helpAlias = (case helpAlias_opt uo of None \<Rightarrow> True | Some v \<Rightarrow> v),
              version = (case version_opt uo of None \<Rightarrow> True | Some v \<Rightarrow> v),
              asyncFunction = (case asyncFunction_opt uo of None \<Rightarrow> False | Some v \<Rightarrow> v),
              runnable = (case runnable_opt uo of None \<Rightarrow> False | Some v \<Rightarrow> v) \<rparr>
      in makeWrapper env
           [ExpressionStatement (generateCallableChain (render_acc opts r) (Identifier (lib opts)))]
           \<lparr> mw_outputSourceFile = out, mw_entrySourceFile = entry, mw_result = r,
             mw_context = ctx, mw_options = opts \<rparr>)
   \<and> render env r out entry no_options ctx =
     makeWrapper env
       [ExpressionStatement
          (generateCallableChain
             [CallExpression (Identifier ''strict'') None [],
              makeCommandNode r,
              CallExpression (Identifier ''help'') None [],
              CallExpression (Identifier ''alias'') None [StringLiteral ''help'', StringLiteral ''h''],
              CallExpression (Identifier ''version'') None [],
              CallExpression (Identifier ''parse'') None [Identifier ''args'']]
             (Identifier ''yargs''))]
       \<lparr> mw_outputSourceFile = out, mw_entrySourceFile = entry, mw_result = r,
         mw_context = ctx,
         mw_options =
           \<lparr> lib = ''yargs'', functionName = ''cli'', strict = True, help = True,
             helpAlias = True, version = True, asyncFunction = False, runnable = False \<rparr> \<rparr>
   \<and> render env r out entry (no_options\<lparr>asyncFunction_opt := Some True\<rparr>) ctx =
     makeWrapper env
       [ExpressionStatement
          (generateCallableChain
             [CallExpression (Identifier ''strict'') None [],
              makeCommandNode r,
              CallExpression (Identifier ''help'') None [],
              CallExpression (Identifier ''alias'') None [StringLiteral ''help'', StringLiteral ''h''],
              CallExpression (Identifier ''version'') None [],
              CallExpression (Identifier ''parse'') None [Identifier ''args'']]
             (Identifier ''yargs''))]
       \<lparr> mw_outputSourceFile = out, mw_entrySourceFile = entry, mw_result = r,
         mw_context = ctx,
         mw_options =
           \<lparr> lib = ''yargs'', functionName = ''cli'', strict = True, help = True,
             helpAlias = True, version = True, asyncFunction = True, runnable = False \<rparr> \<rparr>"
proof -
  have merged: "defaults uo DEFAULT_RENDER_OPTIONS =
            \<lparr> lib = (case lib_opt uo of None \<Rightarrow> ''yargs'' | Some v \<Rightarrow> v),
              functionName = (case functionName_opt uo of None \<Rightarrow> ''cli'' | Some v \<Rightarrow> v),
              strict = (case strict_opt uo of None \<Rightarrow> True | Some v \<Rightarrow> v),
              help = (case help_opt uo of None \<Rightarrow> True | Some v \<Rightarrow> v),
              helpAlias = (case helpAlias_opt uo of None \<Rightarrow> True | Some v \<Rightarrow> v),
              version = (case version_opt uo of None \<Rightarrow> True | Some v \<Rightarrow> v),
              asyncFunction = (case asyncFunction_opt uo of None \<Rightarrow> False | Some v \<Rightarrow> v),
              runnable = (case runnable_opt uo of None \<Rightarrow> False | Some v \<Rightarrow> v) \<rparr>"
    by (simp add: defaults_def DEFAULT_RENDER_OPTIONS_def CLI_LIB_NAME_def FUNCTION_NAME_def
          split: option.split)
  have general: "render env r out entry uo ctx =
     (let opts =
            \<lparr> lib = (case lib_opt uo of None \<Rightarrow> ''yargs'' | Some v \<Rightarrow> v),
              functionName = (case functionName_opt uo of None \<Rightarrow> ''cli'' | Some v \<Rightarrow> v),
              strict = (case strict_opt uo of None \<Rightarrow> True | Some v \<Rightarrow> v),
              help = (case help_opt uo of None \<Rightarrow> True | Some v \<Rightarrow> v),
              helpAlias = (case helpAlias_opt uo of None \<Rightarrow> True | Some v \<Rightarrow> v),
              version = (case version_opt uo of None \<Rightarrow> True | Some v \<Rightarrow> v),
              asyncFunction = (case asyncFunction_opt uo of None \<Rightarrow> False | Some v \<Rightarrow> v),
              runnable = (case runnable_opt uo of None \<Rightarrow> False | Some v \<Rightarrow> v) \<rparr>
      in makeWrapper env
           [ExpressionStatement (generateCallableChain (render_acc opts r) (Identifier (lib opts)))]
           \<lparr> mw_outputSourceFile = out, mw_entrySourceFile = entry, mw_result = r,
             mw_context = ctx, mw_options = opts \<rparr>)"
    by (simp only: Let_def render_unfold merged)
  have d0: "defaults no_options DEFAULT_RENDER_OPTIONS =
            \<lparr> lib = ''yargs'', functionName = ''cli'', strict = True, help = True,
              helpAlias = True, version = True, asyncFunction = False, runnable = False \<rparr>"
    by (simp add: defaults_def no_options_def DEFAULT_RENDER_OPTIONS_def CLI_LIB_NAME_def
          FUNCTION_NAME_def)
  have d1: "defaults (no_options\<lparr>asyncFunction_opt := Some True\<rparr>) DEFAULT_RENDER_OPTIONS =
            \<lparr> lib = ''yargs'', functionName = ''cli'', strict = True, help = True,
              helpAlias = True, version = True, asyncFunction = True, runnable = False \<rparr>"
    by (simp add: defaults_def no_options_def DEFAULT_RENDER_OPTIONS_def CLI_LIB_NAME_def
          FUNCTION_NAME_def)
  have none: "render env r out entry no_options ctx =
     makeWrapper env
       [ExpressionStatement
          (generateCallableChain
             [CallExpression (Identifier ''strict'') None [],
              makeCommandNode r,
              CallExpression (Identifier ''help'') None [],
              CallExpression (Identifier ''alias'') None [StringLiteral ''help'', StringLiteral ''h''],
              CallExpression (Identifier ''version'') None [],
              CallExpression (Identifier ''parse'') None [Identifier ''args'']]
             (Identifier ''yargs''))]
       \<lparr> mw_outputSourceFile = out, mw_entrySourceFile = entry, mw_result = r,
         mw_context = ctx,
         mw_options =
           \<lparr> lib = ''yargs'', functionName = ''cli'', strict = True, help = True,
             helpAlias = True, version = True, asyncFunction = False, runnable = False \<rparr> \<rparr>"
    by (simp add: render_unfold d0 render_acc_shape)
  have async: "render env r out entry (no_options\<lparr>asyncFunction_opt := Some True\<rparr>) ctx =
     makeWrapper env
       [ExpressionStatement
          (generateCallableChain
             [CallExpression (Identifier ''strict'') None [],
              makeCommandNode r,
              CallExpression (Identifier ''help'') None [],
              CallExpression (Identifier ''alias'') None [StringLiteral ''help'', StringLiteral ''h''],
              CallExpression (Identifier ''version'') None [],
              CallExpression (Identifier ''parse'') None [Identifier ''args'']]
             (Identifier ''yargs''))]
       \<lparr> mw_outputSourceFile = out, mw_entrySourceFile = entry, mw_result = r,
         mw_context = ctx,
         mw_options =
           \<lparr> lib = ''yargs'', functionName = ''cli'', strict = True, help = True,
             helpAlias = True, version = True, asyncFunction = True, runnable = False \<rparr> \<rparr>"
    by (simp add: render_unfold d1 render_acc_shape)
  from general none async show ?thesis by (intro conjI)
qed


section \<open>The trailing invocation\<close>

text \<open>
  Claim C2 says that with \<open>runnable\<close> on and \<^verbatim>\<open>context.args = ["a","b"]\<close> the sequence
  ends in a call of the wrapper whose one argument is the array literal of those strings.
  \<^verbatim>\<open>makeCliCallNode\<close> builds that array literal and then spreads it
  (\<^verbatim>\<open>[...(args ? ts.createArrayLiteral(...) : [])]\<close>) instead of listing it: the node is not
  iterable, the spread raises, and \<^verbatim>\<open>render\<close> returns no sequence at all.
\<close>

theorem makeCliCallNode_args_raises:
  "makeCliCallNode nm (Some [''a'', ''b'']) = Inl TypeError
   \<and> render env r out entry (no_options\<lparr>runnable_opt := Some True\<rparr>)
       \<lparr>stdin = False, args = Some [''a'', ''b'']\<rparr>
     = Inl TypeError"
  by (simp add: makeCliCallNode_def render_def render_st_def makeWrapper_def Let_def
        defaults_def no_options_def DEFAULT_RENDER_OPTIONS_def)

text \<open>
  Claim C9 says that in stdin mode the sequence is the import, the statements of the
  entry file, the wrapper declaration and an invocation. That is so when the context has
  no \<open>args\<close> (\<open>makeWrapper_stdin_no_args\<close>). With \<open>args\<close> present the invocation is built
  by the same spread as above, and the wrapper assembler raises instead of returning.
\<close>

theorem makeWrapper_stdin_args_raises:
  "makeWrapper env body
     \<lparr> mw_outputSourceFile = out, mw_entrySourceFile = entry, mw_result = r,
       mw_context = \<lparr>stdin = True, args = Some [''a'']\<rparr>,
       mw_options = DEFAULT_RENDER_OPTIONS \<rparr>
   = Inl TypeError"
  by (simp add: makeWrapper_def Let_def makeCliCallNode_def)


section \<open>The top-level chain\<close>

text \<open>
  Claim C7: the calls that \<^verbatim>\<open>render\<close> folds into its chain are, in this order,
  \<^verbatim>\<open>strict()\<close> if \<open>strict\<close>, \<^verbatim>\<open>command(...)\<close>, \<^verbatim>\<open>help()\<close> if \<open>help\<close>,
  \<^verbatim>\<open>alias("help", "h")\<close> if \<open>helpAlias\<close>, \<^verbatim>\<open>version()\<close> if \<open>version\<close>, and
  \<^verbatim>\<open>parse(args)\<close>; the command is always among them and \<^verbatim>\<open>parse(args)\<close> is always the
  last; the tree built from them holds the links before \<^verbatim>\<open>parse\<close> in that order and is a
  call with the arguments of \<^verbatim>\<open>parse\<close>; and whenever \<^verbatim>\<open>render\<close> returns a sequence, the
  body of the wrapper declaration in it is the chain builder's result on exactly these
  calls, for the merged options.
\<close>

theorem render_chain_links:
  "render_acc opts r =
     (if strict opts then [CallExpression (Identifier ''strict'') None []] else [])
     @ [CallExpression (Identifier ''command'') None
          [makePositionalCommandString r, parenthesizeExpressionForList (description r),
           makeBuilder r, makeHandler r]]
     @ (if help opts then [CallExpression (Identifier ''help'') None []] else [])
     @ (if helpAlias opts
        then [CallExpression (Identifier ''alias'') None [StringLiteral ''help'', StringLiteral ''h'']]
        else [])
     @ (if version opts then [CallExpression (Identifier ''version'') None []] else [])
     @ [CallExpression (Identifier ''parse'') None [Identifier ''args'']]
   \<and> makeCommandNode r \<in> set (render_acc opts r)
   \<and> last (render_acc opts r) = CallExpression (Identifier ''parse'') None [Identifier ''args'']
   \<and> generateCallableChain (render_acc opts r) base
     = CallExpression
         (PropertyAccessExpression (parenthesizeForAccess base)
           (name_nest
             ((if strict opts then [CallExpression (Identifier ''strict'') None []] else [])
              @ [makeCommandNode r]
              @ (if help opts then [CallExpression (Identifier ''help'') None []] else [])
              @ (if helpAlias opts
                 then [CallExpression (Identifier ''alias'') None
                         [StringLiteral ''help'', StringLiteral ''h'']]
                 else [])
              @ (if version opts then [CallExpression (Identifier ''version'') None []] else []))
             (Identifier ''parse'')))
         None [Identifier ''args'']
   \<and> (render env r out entry uo ctx = Inr ns \<longrightarrow>
        makeWrapperFunctionDeclaration
          [ExpressionStatement
             (generateCallableChain (render_acc (defaults uo DEFAULT_RENDER_OPTIONS) r)
                (Identifier (lib (defaults uo DEFAULT_RENDER_OPTIONS))))]
          (defaults uo DEFAULT_RENDER_OPTIONS) \<in> set ns)"
proof -
  have shape: "render_acc opts r =
     (if strict opts then [CallExpression (Identifier ''strict'') None []] else [])
     @ [CallExpression (Identifier ''command'') None
          [makePositionalCommandString r, parenthesizeExpressionForList (description r),
           makeBuilder r, makeHandler r]]
     @ (if help opts then [CallExpression (Identifier ''help'') None []] else [])
     @ (if helpAlias opts
        then [CallExpression (Identifier ''alias'') None [StringLiteral ''help'', StringLiteral ''h'']]
        else [])
     @ (if version opts then [CallExpression (Identifier ''version'') None []] else [])
     @ [CallExpression (Identifier ''parse'') None [Identifier ''args'']]"
    by (simp only: render_acc_shape makeCommandNode_node)
  have present: "makeCommandNode r \<in> set (render_acc opts r)"
    by (simp add: render_acc_shape)
  have final: "last (render_acc opts r) = CallExpression (Identifier ''parse'') None [Identifier ''args'']"
    by (simp add: render_acc_shape)
  have body: "render env r out entry uo ctx = Inr ns \<longrightarrow>
        makeWrapperFunctionDeclaration
          [ExpressionStatement
             (generateCallableChain (render_acc (defaults uo DEFAULT_RENDER_OPTIONS) r)
                (Identifier (lib (defaults uo DEFAULT_RENDER_OPTIONS))))]
          (defaults uo DEFAULT_RENDER_OPTIONS) \<in> set ns"
    using render_Inr_contents(2) by blast
  from shape present final render_chain_tree body show ?thesis by (intro conjI)
qed

text \<open>
  An instance: the sample result, no option overridden, not in stdin mode. \<^verbatim>\<open>render\<close>
  returns the import and the wrapper declaration, and the declaration is in the sequence.
\<close>

theorem render_chain_links_witness:
  "render example_env example_result example_file example_file no_options
     \<lparr>stdin = False, args = None\<rparr>
   = Inr [makeLibImportDeclarationNode example_env ''yargs'' ''yargs'' \<lparr>stdin = False, args = None\<rparr>,
          makeWrapperFunctionDeclaration
            [ExpressionStatement
               (generateCallableChain (render_acc DEFAULT_RENDER_OPTIONS example_result)
                  (Identifier ''yargs''))]
            DEFAULT_RENDER_OPTIONS]
   \<and> makeWrapperFunctionDeclaration
            [ExpressionStatement
               (generateCallableChain (render_acc DEFAULT_RENDER_OPTIONS example_result)
                  (Identifier ''yargs''))]
            DEFAULT_RENDER_OPTIONS
       \<in> set [makeLibImportDeclarationNode example_env ''yargs'' ''yargs'' \<lparr>stdin = False, args = None\<rparr>,
          makeWrapperFunctionDeclaration
            [ExpressionStatement
               (generateCallableChain (render_acc DEFAULT_RENDER_OPTIONS example_result)
                  (Identifier ''yargs''))]
            DEFAULT_RENDER_OPTIONS]"
proof -
  let ?ctx = "\<lparr>stdin = False, args = None\<rparr>"
  let ?body = "[ExpressionStatement
                  (generateCallableChain (render_acc DEFAULT_RENDER_OPTIONS example_result)
                     (Identifier ''yargs''))]"
  let ?w = "\<lparr> mw_outputSourceFile = example_file, mw_entrySourceFile = example_file,
              mw_result = example_result, mw_context = ?ctx,
              mw_options = DEFAULT_RENDER_OPTIONS \<rparr>"
  have d: "defaults no_options DEFAULT_RENDER_OPTIONS = DEFAULT_RENDER_OPTIONS"
    by (simp add: defaults_def no_options_def DEFAULT_RENDER_OPTIONS_def)
  have l: "lib DEFAULT_RENDER_OPTIONS = ''yargs''"
    by (simp add: DEFAULT_RENDER_OPTIONS_def CLI_LIB_NAME_def)
  have quiet: "\<not> runnable (mw_options ?w)" "\<not> stdin (mw_context ?w)"
    by (simp_all add: DEFAULT_RENDER_OPTIONS_def)
  have "render example_env example_result example_file example_file no_options ?ctx
        = makeWrapper example_env ?body ?w"
    by (simp only: render_unfold d l)
  also have "\<dots> = Inr [makeLibImportDeclarationNode example_env ''yargs'' ''yargs'' ?ctx,
                        makeWrapperFunctionDeclaration ?body DEFAULT_RENDER_OPTIONS]"
    by (simp add: makeWrapper_no_invocation [OF quiet] example_refs_empty)
  finally have run:
    "render example_env example_result example_file example_file no_options ?ctx
     = Inr [makeLibImportDeclarationNode example_env ''yargs'' ''yargs'' ?ctx,
            makeWrapperFunctionDeclaration ?body DEFAULT_RENDER_OPTIONS]" .
  have step: "render example_env example_result example_file example_file no_options ?ctx
     = Inr [makeLibImportDeclarationNode example_env ''yargs'' ''yargs'' ?ctx,
            makeWrapperFunctionDeclaration ?body DEFAULT_RENDER_OPTIONS]
     \<longrightarrow> makeWrapperFunctionDeclaration ?body DEFAULT_RENDER_OPTIONS
         \<in> set [makeLibImportDeclarationNode example_env ''yargs'' ''yargs'' ?ctx,
                 makeWrapperFunctionDeclaration ?body DEFAULT_RENDER_OPTIONS]"
    using render_chain_links [of DEFAULT_RENDER_OPTIONS example_result "Identifier ''yargs''"
                example_env example_file example_file no_options ?ctx
                "[makeLibImportDeclarationNode example_env ''yargs'' ''yargs'' ?ctx,
                  makeWrapperFunctionDeclaration ?body DEFAULT_RENDER_OPTIONS]",
              THEN conjunct2, THEN conjunct2, THEN conjunct2, THEN conjunct2]
    by (simp only: d l)
  from step run have
    "makeWrapperFunctionDeclaration ?body DEFAULT_RENDER_OPTIONS
       \<in> set [makeLibImportDeclarationNode example_env ''yargs'' ''yargs'' ?ctx,
               makeWrapperFunctionDeclaration ?body DEFAULT_RENDER_OPTIONS]"
    by (rule mp)
  with run show ?thesis by (rule conjI)
qed


section \<open>Where the \<open>lib\<close> option goes\<close>

text \<open>
  Claim C10: the whole result of \<^verbatim>\<open>render\<close>, written with the options \<open>others\<close> that are
  merged from the caller's object after its \<open>lib\<close> has been erased. The first node is the
  namespace import that binds \<open>yargs\<close>; the builder callback inside the \<^verbatim>\<open>command\<close> link
  has the parameter \<open>yargs\<close> and returns the chain of the positional and option calls on
  the identifier \<open>yargs\<close>; the links, the wrapper declaration and the trailing invocation
  are those of \<open>others\<close>. The caller's \<open>lib\<close> appears in one place only: the identifier
  the top-level chain starts from.
\<close>

theorem lib_option_scope:
  "render env r out entry uo ctx =
     (let others = defaults (uo\<lparr>lib_opt := None\<rparr>) DEFAULT_RENDER_OPTIONS;
          chain_base = Identifier (case lib_opt uo of None \<Rightarrow> ''yargs'' | Some v \<Rightarrow> v);
          builder =
            ArrowFunction None None
              [Parameter None None None (Identifier ''yargs'') None None None]
              None (Token EqualsGreaterThanToken)
              (Block
                [ReturnStatement
                   (generateCallableChain (map snd (positionals r) @ map snd (options r))
                      (Identifier ''yargs''))]
                True);
          links =
            (if strict others then [CallExpression (Identifier ''strict'') None []] else [])
            @ [CallExpression (Identifier ''command'') None
                 [makePositionalCommandString r, parenthesizeExpressionForList (description r),
                  builder, makeHandler r]]
            @ (if help others then [CallExpression (Identifier ''help'') None []] else [])
            @ (if helpAlias others
               then [CallExpression (Identifier ''alias'') None
                       [StringLiteral ''help'', StringLiteral ''h'']]
               else [])
            @ (if version others then [CallExpression (Identifier ''version'') None []] else []);
          chain =
            CallExpression
              (PropertyAccessExpression chain_base (name_nest links (Identifier ''parse'')))
              None [Identifier ''args''];
          nodes =
            ImportDeclaration None None
              (ImportClause None (NamespaceImport (Identifier ''yargs'')))
              (StringLiteral (if stdin ctx then require_resolve env ''yargs'' else ''yargs''))
            # (if stdin ctx then statements entry
               else makeRefImportDeclarationNode env out r)
            @ [makeWrapperFunctionDeclaration [ExpressionStatement chain] others]
      in if runnable others \<or> stdin ctx
         then (case makeCliCallNode (functionName others) (args ctx) of
                 Inl e \<Rightarrow> Inl e
               | Inr call \<Rightarrow> Inr (nodes @ [call]))
         else Inr nodes)"
proof -
  let ?M = "defaults uo DEFAULT_RENDER_OPTIONS"
  let ?others = "defaults (uo\<lparr>lib_opt := None\<rparr>) DEFAULT_RENDER_OPTIONS"
  let ?w = "\<lparr> mw_outputSourceFile = out, mw_entrySourceFile = entry, mw_result = r,
              mw_context = ctx, mw_options = ?M \<rparr>"
  let ?chain = "generateCallableChain (render_acc ?M r) (Identifier (lib ?M))"
  have import: "makeLibImportDeclarationNode env ''yargs'' ''yargs'' ctx
                = ImportDeclaration None None
                  (ImportClause None (NamespaceImport (Identifier ''yargs'')))
                  (StringLiteral (if stdin ctx then require_resolve env ''yargs'' else ''yargs''))"
    by (simp add: makeLibImportDeclarationNode_def Let_def)
  have chain: "?chain
     = CallExpression
         (PropertyAccessExpression
           (Identifier (case lib_opt uo of None \<Rightarrow> ''yargs'' | Some v \<Rightarrow> v))
           (name_nest
             ((if strict ?others then [CallExpression (Identifier ''strict'') None []] else [])
              @ [CallExpression (Identifier ''command'') None
                   [makePositionalCommandString r, parenthesizeExpressionForList (description r),
                    ArrowFunction None None
                      [Parameter None None None (Identifier ''yargs'') None None None]
                      None (Token EqualsGreaterThanToken)
                      (Block
                        [ReturnStatement
                           (generateCallableChain (map snd (positionals r) @ map snd (options r))
                              (Identifier ''yargs''))]
                        True),
                    makeHandler r]]
              @ (if help ?others then [CallExpression (Identifier ''help'') None []] else [])
              @ (if helpAlias ?others
                 then [CallExpression (Identifier ''alias'') None
                         [StringLiteral ''help'', StringLiteral ''h'']]
                 else [])
              @ (if version ?others then [CallExpression (Identifier ''version'') None []] else []))
             (Identifier ''parse'')))
         None [Identifier ''args'']"
    by (simp only: render_chain_tree defaults_without_lib defaults_lib makeCommandNode_node
          makeBuilder_node)
       (simp add: parenthesizeForAccess_def)
  have "render env r out entry uo ctx = makeWrapper env [ExpressionStatement ?chain] ?w"
    by (rule render_unfold)
  also have "\<dots> =
     (if runnable ?others \<or> stdin ctx
      then (case makeCliCallNode (functionName ?others) (args ctx) of
              Inl e \<Rightarrow> Inl e
            | Inr call \<Rightarrow>
                Inr ((makeLibImportDeclarationNode env ''yargs'' ''yargs'' ctx
                      # (if stdin ctx then statements entry
                         else makeRefImportDeclarationNode env out r)
                      @ [makeWrapperFunctionDeclaration [ExpressionStatement ?chain] ?others])
                     @ [call]))
      else Inr (makeLibImportDeclarationNode env ''yargs'' ''yargs'' ctx
                # (if stdin ctx then statements entry
                   else makeRefImportDeclarationNode env out r)
                @ [makeWrapperFunctionDeclaration [ExpressionStatement ?chain] ?others]))"
    by (simp add: makeWrapper_nodes defaults_without_lib
          makeWrapperFunctionDeclaration_without_lib split: sum.split)
  finally show ?thesis
    by (simp only: Let_def import chain)
qed

text \<open>
  An instance: the caller sets \<open>lib\<close> to \<open>parser\<close>. The import still binds \<open>yargs\<close>; the
  top-level chain starts from \<open>parser\<close>.
\<close>

theorem lib_option_scope_witness:
  "render example_env example_result example_file example_file
     (no_options\<lparr>lib_opt := Some ''parser''\<rparr>) \<lparr>stdin = False, args = None\<rparr>
   = Inr [ImportDeclaration None None
            (ImportClause None (NamespaceImport (Identifier ''yargs'')))
            (StringLiteral ''yargs''),
          makeWrapperFunctionDeclaration
            [ExpressionStatement
               (CallExpression
                  (PropertyAccessExpression (Identifier ''parser'')
                     (name_nest
                        [CallExpression (Identifier ''strict'') None [],
                         makeCommandNode example_result,
                         CallExpression (Identifier ''help'') None [],
                         CallExpression (Identifier ''alias'') None
                           [StringLiteral ''help'', StringLiteral ''h''],
                         CallExpression (Identifier ''version'') None []]
                        (Identifier ''parse'')))
                  None [Identifier ''args''])]
            DEFAULT_RENDER_OPTIONS]"
proof -
  have others: "defaults (no_options\<lparr>lib_opt := None\<rparr>) DEFAULT_RENDER_OPTIONS
                = DEFAULT_RENDER_OPTIONS"
    by (simp add: defaults_def no_options_def DEFAULT_RENDER_OPTIONS_def)
  have flags: "strict DEFAULT_RENDER_OPTIONS" "help DEFAULT_RENDER_OPTIONS"
    "helpAlias DEFAULT_RENDER_OPTIONS" "version DEFAULT_RENDER_OPTIONS"
    "\<not> runnable DEFAULT_RENDER_OPTIONS"
    by (simp_all add: DEFAULT_RENDER_OPTIONS_def)
  show ?thesis
    using lib_option_scope [of example_env example_result example_file example_file
                  "no_options\<lparr>lib_opt := Some ''parser''\<rparr>" "\<lparr>stdin = False, args = None\<rparr>"]
    by (simp add: Let_def others flags example_refs_empty makeCommandNode_node
          makeBuilder_node)
qed

end
